theory Spec2Isabelle
  imports Complex_Main "HOL-Library.Multiset"
begin

section \<open>Python exceptions as values\<close>

text \<open>
  The exceptions the modelled functions can raise: \<open>IndexError\<close> (\<open>.iloc[0]\<close> on an
  empty query result), \<open>KeyError\<close> (\<open>set.remove\<close> of an absent element),
  \<open>ValueError\<close> (\<open>list.remove\<close> of an absent element, \<open>math.sqrt\<close> and
  \<open>math.asin\<close> outside their domain) and \<open>RuntimeError\<close> (raised by
  \<open>recompute_dispatch_sequence\<close> when a dispatch has no stops).
\<close>

datatype py_error = IndexError | KeyError | ValueError | RuntimeError

section \<open>The load packer (pack\_dispatch.py)\<close>

subsection \<open>Data\<close>

text \<open>
  One row of the query of \<open>load_packages\<close>. The rows arrive in the order of the
  query (\<open>ORDER BY ds.Sequence DESC, p.Weight_lbs DESC\<close>); \<open>pack\<close> itself does not
  sort, it iterates over the rows as they are. Dimensions are whole centimetres,
  weights are modelled as real numbers.
\<close>

record package_row =
  Package_id :: int
  Weight_lbs :: real
  Length_cm :: int
  Width_cm :: int
  Height_cm :: int
  Fragile_flag :: bool
  StopSequence :: int

text \<open>One row of the query of \<open>get_truck\<close>.\<close>

record truck_row =
  tt_Length_cm :: int
  tt_Width_cm :: int
  tt_Height_cm :: int
  tt_Max_weight_lbs :: real

text \<open>The dictionary appended to \<open>placed\<close> for every placed package.\<close>

record placement =
  pl_Package_id :: int
  X_cm :: int
  Y_cm :: int
  Z_cm :: int
  pl_Length_cm :: int
  pl_Width_cm :: int
  pl_Height_cm :: int
  pl_Fragile_flag :: bool
  pl_StopSequence :: int

text \<open>The local variables of \<open>pack\<close> that the loop over the packages updates.\<close>

record pack_state =
  cur_x :: int
  cur_y :: int
  cur_z :: int
  row_depth :: int
  layer_height :: int
  placed :: "placement list"
  total_weight :: real

text \<open>What \<open>pack\<close> computes: the two utilisation figures and the placements.\<close>

record load_plan =
  Util_weight_pct :: real
  Util_volume_pct :: real
  placements :: "placement list"

subsection \<open>Operations\<close>

definition get_truck :: "truck_row list \<Rightarrow> py_error + (int \<times> int \<times> int \<times> real)" where
  "get_truck rows =
     (case rows of
        [] \<Rightarrow> Inl IndexError
      | row # _ \<Rightarrow>
          Inr (tt_Length_cm row, tt_Width_cm row, tt_Height_cm row, tt_Max_weight_lbs row))"

definition init_state :: pack_state where
  "init_state =
     \<lparr>cur_x = 0, cur_y = 0, cur_z = 0, row_depth = 0, layer_height = 0,
      placed = [], total_weight = 0\<rparr>"

definition mk_placement :: "pack_state \<Rightarrow> package_row \<Rightarrow> placement" where
  "mk_placement st r =
     \<lparr>pl_Package_id = Package_id r,
      X_cm = cur_x st, Y_cm = cur_y st, Z_cm = cur_z st,
      pl_Length_cm = Length_cm r, pl_Width_cm = Width_cm r, pl_Height_cm = Height_cm r,
      pl_Fragile_flag = Fragile_flag r, pl_StopSequence = StopSequence r\<rparr>"

text \<open>The wrap along X: a new row.\<close>

definition wrap_x :: "int \<Rightarrow> pack_state \<Rightarrow> package_row \<Rightarrow> pack_state" where
  "wrap_x L st r =
     (if cur_x st + Length_cm r > L
      then st\<lparr>cur_x := 0, cur_y := cur_y st + row_depth st, row_depth := 0\<rparr>
      else st)"

text \<open>The wrap along Y: a new layer. The row depth is not reset here.\<close>

definition wrap_y :: "int \<Rightarrow> pack_state \<Rightarrow> package_row \<Rightarrow> pack_state" where
  "wrap_y W st r =
     (if cur_y st + Width_cm r > W
      then st\<lparr>cur_x := 0, cur_y := 0, cur_z := cur_z st + layer_height st, layer_height := 0\<rparr>
      else st)"

text \<open>
  One iteration of the loop. The weight test comes first and leaves the state
  untouched; the height test comes after both wraps, so a package dropped for its
  height has already moved the cursor.
\<close>

definition pack_step :: "int \<Rightarrow> int \<Rightarrow> int \<Rightarrow> real \<Rightarrow> pack_state \<Rightarrow> package_row \<Rightarrow> pack_state" where
  "pack_step L W H max_weight st r =
     (if total_weight st + Weight_lbs r > max_weight then st
      else
        let st2 = wrap_y W (wrap_x L st r) r
        in if cur_z st2 + Height_cm r > H then st2
           else st2\<lparr>placed := placed st2 @ [mk_placement st2 r],
                    total_weight := total_weight st2 + Weight_lbs r,
                    cur_x := cur_x st2 + Length_cm r,
                    row_depth := max (row_depth st2) (Width_cm r),
                    layer_height := max (layer_height st2) (Height_cm r)\<rparr>)"

definition pack_loop :: "int \<Rightarrow> int \<Rightarrow> int \<Rightarrow> real \<Rightarrow> package_row list \<Rightarrow> pack_state" where
  "pack_loop L W H max_weight packages = foldl (pack_step L W H max_weight) init_state packages"

text \<open>
  Python's \<open>round(v, 1)\<close> on an exact value: to the nearest tenth, a tie going to the
  even neighbour.
\<close>

definition round_half_even :: "real \<Rightarrow> int" where
  "round_half_even v =
     (let f = \<lfloor>v\<rfloor>; d = v - of_int f
      in if d < 1 / 2 then f else if 1 / 2 < d then f + 1 else if even f then f else f + 1)"

definition round1 :: "real \<Rightarrow> real" where
  "round1 v = of_int (round_half_even (v * 10)) / 10"

definition used_volume :: "placement list \<Rightarrow> int" where
  "used_volume ps = sum_list (map (\<lambda>p. pl_Length_cm p * pl_Width_cm p * pl_Height_cm p) ps)"

definition metrics :: "int \<Rightarrow> int \<Rightarrow> int \<Rightarrow> real \<Rightarrow> pack_state \<Rightarrow> load_plan" where
  "metrics L W H max_weight st =
     (let util_weight = (if max_weight > 0 then round1 (total_weight st / max_weight * 100) else 0);
          truck_volume = L * W * H;
          util_volume = (if truck_volume > 0
                         then round1 (of_int (used_volume (placed st)) / of_int truck_volume * 100)
                         else 0)
      in \<lparr>Util_weight_pct = util_weight, Util_volume_pct = util_volume,
          placements = placed st\<rparr>)"

text \<open>
  \<open>pack\<close>, with the two query results as arguments and the computed plan as result
  (the identifier of the stored plan comes from the database and is not modelled).
\<close>

definition pack :: "package_row list \<Rightarrow> truck_row list \<Rightarrow> py_error + load_plan" where
  "pack packages truck_rows =
     (case get_truck truck_rows of
        Inl e \<Rightarrow> Inl e
      | Inr (L, W, H, max_weight) \<Rightarrow>
          Inr (metrics L W H max_weight (pack_loop L W H max_weight packages)))"

section \<open>Great-circle distance (routing\_opt.py and optimize\_route.py)\<close>

text \<open>
  Coordinates are modelled as real numbers and the functions of Python's \<open>math\<close>
  module as the real functions they approximate. \<open>math.sqrt\<close> and \<open>math.asin\<close>
  raise \<open>ValueError\<close> outside their domain; \<open>math.atan2\<close> is total.
\<close>

definition radians :: "real \<Rightarrow> real" where
  "radians d = d * pi / 180"

definition py_sqrt :: "real \<Rightarrow> py_error + real" where
  "py_sqrt v = (if v < 0 then Inl ValueError else Inr (sqrt v))"

definition py_asin :: "real \<Rightarrow> py_error + real" where
  "py_asin v = (if v < - 1 \<or> 1 < v then Inl ValueError else Inr (arcsin v))"

definition atan2 :: "real \<Rightarrow> real \<Rightarrow> real" where
  "atan2 y x =
     (if 0 < x then arctan (y / x)
      else if x < 0 then (if 0 \<le> y then arctan (y / x) + pi else arctan (y / x) - pi)
      else if 0 < y then pi / 2
      else if y < 0 then - (pi / 2)
      else 0)"

text \<open>
  \<open>haversine_km\<close> of routing\_opt.py, in two parts: the value of the local variable
  \<open>a\<close>, and the return expression \<open>2 * R * math.asin(math.sqrt(a))\<close>. There is no
  clamp between the two.
\<close>

definition routing_opt_a :: "real \<Rightarrow> real \<Rightarrow> real \<Rightarrow> real \<Rightarrow> real" where
  "routing_opt_a lat1 lon1 lat2 lon2 =
     (let phi1 = radians lat1;
          phi2 = radians lat2;
          dphi = radians (lat2 - lat1);
          dlambda = radians (lon2 - lon1)
      in (sin (dphi / 2))\<^sup>2 + cos phi1 * cos phi2 * (sin (dlambda / 2))\<^sup>2)"

definition routing_opt_return :: "real \<Rightarrow> py_error + real" where
  "routing_opt_return a =
     (let R = 6371.0088
      in case py_sqrt a of
           Inl e \<Rightarrow> Inl e
         | Inr s \<Rightarrow> (case py_asin s of Inl e \<Rightarrow> Inl e | Inr t \<Rightarrow> Inr (2 * R * t)))"

definition routing_opt_haversine_km :: "real \<Rightarrow> real \<Rightarrow> real \<Rightarrow> real \<Rightarrow> py_error + real" where
  "routing_opt_haversine_km lat1 lon1 lat2 lon2 =
     routing_opt_return (routing_opt_a lat1 lon1 lat2 lon2)"

text \<open>
  \<open>haversine_km\<close> of optimize\_route.py: radius 6371.0, the difference of the
  latitudes taken after the conversion to radians, and
  \<open>2 * math.atan2(math.sqrt(a), math.sqrt(1 - a))\<close> for the angle. The source's
  \<open>p2\<close> (the first longitude in radians) is computed and never used.
\<close>

definition optimize_route_a :: "real \<Rightarrow> real \<Rightarrow> real \<Rightarrow> real \<Rightarrow> real" where
  "optimize_route_a lat1 lon1 lat2 lon2 =
     (let p1 = radians lat1;
          p2_lat = radians lat2;
          dlat = p2_lat - p1;
          dlon = radians (lon2 - lon1)
      in (sin (dlat / 2))\<^sup>2 + cos p1 * cos p2_lat * (sin (dlon / 2))\<^sup>2)"

definition optimize_route_return :: "real \<Rightarrow> py_error + real" where
  "optimize_route_return a =
     (let R = 6371.0
      in case py_sqrt a of
           Inl e \<Rightarrow> Inl e
         | Inr s \<Rightarrow>
             (case py_sqrt (1 - a) of
                Inl e \<Rightarrow> Inl e
              | Inr s' \<Rightarrow> (let c = 2 * atan2 s s' in Inr (R * c))))"

definition optimize_route_haversine_km :: "real \<Rightarrow> real \<Rightarrow> real \<Rightarrow> real \<Rightarrow> py_error + real" where
  "optimize_route_haversine_km lat1 lon1 lat2 lon2 =
     optimize_route_return (optimize_route_a lat1 lon1 lat2 lon2)"

section \<open>The route sequencer with 2-opt (routing\_opt.py)\<close>

text \<open>
  A tour is a list of indices into \<open>coords\<close>. The callers of \<open>haversine_km\<close> use the
  value it returns (\<open>projr\<close>); that it always returns one is proved below. Reading
  \<open>coords\<close> outside its range raises \<open>IndexError\<close> in Python; the functions here
  are meant on tours whose entries are below \<open>length coords\<close>, which is what
  \<open>nearest_neighbor\<close> produces.
\<close>

definition seg_len :: "(real \<times> real) list \<Rightarrow> nat \<Rightarrow> nat \<Rightarrow> real" where
  "seg_len coords i j =
     (let a = coords ! i; b = coords ! j
      in projr (routing_opt_haversine_km (fst a) (snd a) (fst b) (snd b)))"

definition route_length_by :: "(nat \<Rightarrow> nat \<Rightarrow> real) \<Rightarrow> nat list \<Rightarrow> real" where
  "route_length_by seg order =
     foldl (\<lambda>dist i. dist + seg (order ! i) (order ! (i + 1))) 0 [0 ..< length order - 1]"

definition route_length :: "nat list \<Rightarrow> (real \<times> real) list \<Rightarrow> real" where
  "route_length order coords = route_length_by (seg_len coords) order"

text \<open>
  \<open>min(unvisited, key=...)\<close>: the first element, in iteration order, whose key is
  minimal (a later element replaces the current one only when its key is strictly
  smaller). \<open>unvisited\<close> is a set of small non-negative integers built from
  \<open>range(n)\<close> and only ever shrunk; CPython iterates over such a set in ascending
  order, so it is modelled as an ascending list.
\<close>

fun min_key :: "(nat \<Rightarrow> real) \<Rightarrow> nat \<Rightarrow> nat list \<Rightarrow> nat" where
  "min_key key b [] = b"
| "min_key key b (j # js) = (if key j < key b then min_key key j js else min_key key b js)"

lemma min_key_mem: "min_key key b js \<in> set (b # js)"
  by (induction js arbitrary: b) auto

function nn_loop :: "(nat \<Rightarrow> nat \<Rightarrow> real) \<Rightarrow> nat list \<Rightarrow> nat list \<Rightarrow> nat list" where
  "nn_loop seg tour [] = tour"
| "nn_loop seg tour (u # us) =
     (let lst = last tour;
          nxt = min_key (seg lst) u us
      in nn_loop seg (tour @ [nxt]) (remove1 nxt (u # us)))"
  by pat_completeness auto
termination
proof (relation "measure (\<lambda>(seg, tour, unvisited). length unvisited)")
  show "wf (measure (\<lambda>(seg, tour, unvisited). length unvisited))" by simp
next
  fix seg :: "nat \<Rightarrow> nat \<Rightarrow> real" and tour u us x xa
  assume "x = last tour" "xa = min_key (seg x) u us"
  then have "xa \<in> set (u # us)" using min_key_mem by simp
  then have "length (remove1 xa (u # us)) < length (u # us)"
    by (simp only: length_remove1) simp
  then show "((seg, tour @ [xa], remove1 xa (u # us)), (seg, tour, u # us))
             \<in> measure (\<lambda>(seg, tour, unvisited). length unvisited)"
    by simp
qed

definition nearest_neighbor :: "(real \<times> real) list \<Rightarrow> nat \<Rightarrow> py_error + nat list" where
  "nearest_neighbor coords start_idx =
     (let n = length coords;
          unvisited = [0 ..< n]
      in if start_idx \<in> set unvisited
         then Inr (nn_loop (seg_len coords) [start_idx] (remove1 start_idx unvisited))
         else Inl KeyError)"

text \<open>
  The slice assignment \<open>best[i:j + 1] = reversed(best[i:j + 1])\<close>.
\<close>

definition reverse_slice :: "nat list \<Rightarrow> nat \<Rightarrow> nat \<Rightarrow> nat list" where
  "reverse_slice best i j =
     take i best @ rev (take (j + 1 - i) (drop i best)) @ drop (j + 1) best"

text \<open>The body of the inner loop, on the pair of variables it updates.\<close>

definition two_opt_step :: "(nat \<Rightarrow> nat \<Rightarrow> real) \<Rightarrow> nat list \<times> bool \<Rightarrow> nat \<times> nat \<Rightarrow> nat list \<times> bool" where
  "two_opt_step seg s ij =
     (case s of (best, improved) \<Rightarrow>
      case ij of (i, j) \<Rightarrow>
        let a = best ! (i - 1); b = best ! i;
            c = best ! j; d = best ! (j + 1);
            old = seg a b + seg c d;
            new = seg a c + seg b d
        in if new + 1 / 10 ^ 9 < old then (reverse_slice best i j, True) else (best, improved))"

text \<open>
  The pairs the two \<open>for\<close> loops visit, in order:
  \<open>i\<close> in \<open>range(1, n - 2)\<close>, \<open>j\<close> in \<open>range(i + 1, n - 1)\<close>. The length of
  \<open>best\<close> does not change during a pass.
\<close>

definition scan_pairs :: "nat \<Rightarrow> (nat \<times> nat) list" where
  "scan_pairs n = concat (map (\<lambda>i. map (\<lambda>j. (i, j)) [i + 1 ..< n - 1]) [1 ..< n - 2])"

definition two_opt_pass :: "(nat \<Rightarrow> nat \<Rightarrow> real) \<Rightarrow> nat list \<Rightarrow> nat list \<times> bool" where
  "two_opt_pass seg best = foldl (two_opt_step seg) (best, False) (scan_pairs (length best))"

text \<open>
  The \<open>while improved\<close> loop has no bound on the number of passes: it is a partial
  function, \<open>None\<close> standing for a run that never ends.
\<close>

partial_function (option) two_opt_loop :: "(nat \<Rightarrow> nat \<Rightarrow> real) \<Rightarrow> nat list \<Rightarrow> nat list option" where
  "two_opt_loop seg best =
     (case two_opt_pass seg best of
        (best', improved) \<Rightarrow> if improved then two_opt_loop seg best' else Some best')"

definition two_opt :: "nat list \<Rightarrow> (real \<times> real) list \<Rightarrow> nat list option" where
  "two_opt order coords = two_opt_loop (seg_len coords) order"

text \<open>One row of the stop queries, with the columns the two optimisers read.\<close>

record stop_row =
  Stop_id :: int
  Sequence :: int
  Latitude :: real
  Longitude :: real

record route_info =
  stops :: nat
  orig_dist_km :: real
  new_dist_km :: real
  improvement_km :: real
  improvement_pct :: real

text \<open>
  \<open>recompute_dispatch_sequence\<close>, with the query result as argument; the result is
  the list of \<open>(NewSequence, Stop_id)\<close> rows it writes and the summary it returns.
  \<open>df.iloc[idx]\<close> raises \<open>IndexError\<close> for an index outside the frame.
\<close>

definition recompute_dispatch_sequence ::
  "stop_row list \<Rightarrow> (py_error + (nat \<times> int) list \<times> route_info) option" where
  "recompute_dispatch_sequence df =
     (if df = [] then Some (Inl RuntimeError)
      else
        let coords = zip (map Latitude df) (map Longitude df);
            orig_order = [0 ..< length coords];
            orig_dist = route_length orig_order coords
        in case nearest_neighbor coords 0 of
             Inl e \<Rightarrow> Some (Inl e)
           | Inr nn_order \<Rightarrow>
               (case two_opt nn_order coords of
                  None \<Rightarrow> None
                | Some best_order \<Rightarrow>
                    let new_dist = route_length best_order coords
                    in if list_all (\<lambda>idx. idx < length df) best_order
                       then
                         let rows = map (\<lambda>(new_seq, idx). (new_seq, Stop_id (df ! idx)))
                                      (zip [1 ..< Suc (length best_order)] best_order);
                             improvement = orig_dist - new_dist
                         in Some (Inr (rows,
                              \<lparr>stops = length coords, orig_dist_km = orig_dist,
                               new_dist_km = new_dist, improvement_km = improvement,
                               improvement_pct =
                                 (if orig_dist > 0 then improvement / orig_dist * 100 else 0)\<rparr>))
                       else Some (Inl IndexError)))"

section \<open>The nearest-neighbour optimiser (optimize\_route.py)\<close>

definition seg_stops :: "stop_row list \<Rightarrow> nat \<Rightarrow> nat \<Rightarrow> real" where
  "seg_stops stop_rows i j =
     projr (optimize_route_haversine_km
              (Latitude (stop_rows ! i)) (Longitude (stop_rows ! i))
              (Latitude (stop_rows ! j)) (Longitude (stop_rows ! j)))"

text \<open>
  The inner \<open>for j in remaining\<close> loop on \<open>(best_j, best_d)\<close>, started at
  \<open>(None, 1e12)\<close>.
\<close>

definition scan_step :: "(nat \<Rightarrow> real) \<Rightarrow> nat option \<times> real \<Rightarrow> nat \<Rightarrow> nat option \<times> real" where
  "scan_step dist_from s j =
     (case s of (best_j, best_d) \<Rightarrow>
        let d = dist_from j in if d < best_d then (Some j, d) else (best_j, best_d))"

definition scan_best :: "(nat \<Rightarrow> real) \<Rightarrow> nat list \<Rightarrow> nat option \<times> real" where
  "scan_best dist_from remaining = foldl (scan_step dist_from) (None, 10 ^ 12) remaining"

lemma scan_fold_mem:
  "fst (foldl (scan_step f) s js) = Some j \<Longrightarrow> fst s = Some j \<or> j \<in> set js"
  by (induction js arbitrary: s) (fastforce simp: scan_step_def Let_def split: prod.splits if_splits)+

lemma scan_best_mem: "scan_best f js = (Some j, d) \<Longrightarrow> j \<in> set js"
  using scan_fold_mem[of f "(None, 10 ^ 12)" js j] by (simp add: scan_best_def)

text \<open>
  The outer \<open>while remaining\<close> loop. When no candidate was below \<open>1e12\<close>,
  \<open>best_j\<close> is still \<open>None\<close> and \<open>remaining.remove(None)\<close> raises \<open>ValueError\<close>.
\<close>

function nn_order_loop ::
  "(nat \<Rightarrow> nat \<Rightarrow> real) \<Rightarrow> nat list \<Rightarrow> nat list \<Rightarrow> py_error + nat list" where
  "nn_order_loop seg route_idx remaining =
     (if remaining = [] then Inr route_idx
      else case scan_best (seg (last route_idx)) remaining of
             (None, best_d) \<Rightarrow> Inl ValueError
           | (Some best_j, best_d) \<Rightarrow>
               nn_order_loop seg (route_idx @ [best_j]) (remove1 best_j remaining))"
  by pat_completeness auto
termination
proof (relation "measure (\<lambda>(seg, route_idx, remaining). length remaining)")
  show "wf (measure (\<lambda>(seg, route_idx, remaining). length remaining))" by simp
next
  fix seg :: "nat \<Rightarrow> nat \<Rightarrow> real" and route_idx remaining x1 x2 x2a
  assume "remaining \<noteq> []" "(x1, x2) = scan_best (seg (last route_idx)) remaining"
    "x1 = Some x2a"
  then have "x2a \<in> set remaining" using scan_best_mem[of "seg (last route_idx)" remaining x2a x2]
    by simp
  then have "length (remove1 x2a remaining) < length remaining"
    by (cases remaining) (simp_all only: length_remove1, simp_all)
  then show "((seg, route_idx @ [x2a], remove1 x2a remaining), (seg, route_idx, remaining))
             \<in> measure (\<lambda>(seg, route_idx, remaining). length remaining)"
    by simp
qed

definition nearest_neighbor_order :: "stop_row list \<Rightarrow> py_error + int list" where
  "nearest_neighbor_order stop_rows =
     (if stop_rows = [] then Inr []
      else
        let n = length stop_rows;
            remaining = remove1 0 [0 ..< n]
        in case nn_order_loop (seg_stops stop_rows) [0] remaining of
             Inl e \<Rightarrow> Inl e
           | Inr route_idx \<Rightarrow> Inr (map (\<lambda>i. Stop_id (stop_rows ! i)) route_idx))"

section \<open>Properties of the load packer\<close>

subsection \<open>Auxiliary facts\<close>

lemma wrap_x_keeps [simp]:
  "total_weight (wrap_x L st r) = total_weight st" "placed (wrap_x L st r) = placed st"
  "cur_z (wrap_x L st r) = cur_z st" "layer_height (wrap_x L st r) = layer_height st"
  by (simp_all add: wrap_x_def)

lemma wrap_y_keeps [simp]:
  "total_weight (wrap_y W st r) = total_weight st" "placed (wrap_y W st r) = placed st"
  "row_depth (wrap_y W st r) = row_depth st"
  by (simp_all add: wrap_y_def)

lemma pack_step_skip_weight:
  "max_weight < total_weight st + Weight_lbs r \<Longrightarrow> pack_step L W H max_weight st r = st"
  by (simp add: pack_step_def)

lemma pack_step_total_le:
  "total_weight st \<le> max_weight \<Longrightarrow> total_weight (pack_step L W H max_weight st r) \<le> max_weight"
  by (simp add: pack_step_def Let_def)

lemma pack_step_placed_cases:
  "(placed (pack_step L W H max_weight st r) = placed st \<and>
    total_weight (pack_step L W H max_weight st r) = total_weight st) \<or>
   (total_weight st + Weight_lbs r \<le> max_weight \<and>
    (\<exists>p. placed (pack_step L W H max_weight st r) = placed st @ [p]) \<and>
    total_weight (pack_step L W H max_weight st r) = total_weight st + Weight_lbs r)"
  by (simp add: pack_step_def Let_def)

lemma pack_loop_snoc:
  "pack_loop L W H max_weight (packages @ [r]) =
   pack_step L W H max_weight (pack_loop L W H max_weight packages) r"
  by (simp add: pack_loop_def)

lemma pack_loop_total_le:
  "0 \<le> max_weight \<Longrightarrow> total_weight (pack_loop L W H max_weight packages) \<le> max_weight"
proof (induction packages rule: rev_induct)
  case Nil
  then show ?case by (simp add: pack_loop_def init_state_def)
next
  case (snoc r packages)
  then show ?case by (simp add: pack_loop_snoc pack_step_total_le)
qed

subsection \<open>Placements and the truck interior\<close>

text \<open>
  A placement lies in the truck interior when its box, from its origin to its origin
  plus its extent on each axis, stays between 0 and the truck's dimension.
\<close>

definition inside :: "int \<Rightarrow> int \<Rightarrow> int \<Rightarrow> placement \<Rightarrow> bool" where
  "inside L W H p \<longleftrightarrow>
     0 \<le> X_cm p \<and> X_cm p + pl_Length_cm p \<le> L \<and>
     0 \<le> Y_cm p \<and> Y_cm p + pl_Width_cm p \<le> W \<and>
     0 \<le> Z_cm p \<and> Z_cm p + pl_Height_cm p \<le> H"

definition cursor_ok :: "pack_state \<Rightarrow> bool" where
  "cursor_ok st \<longleftrightarrow>
     0 \<le> cur_x st \<and> 0 \<le> cur_y st \<and> 0 \<le> cur_z st \<and> 0 \<le> row_depth st \<and> 0 \<le> layer_height st"

lemma wraps_cursor_ok:
  "cursor_ok st \<Longrightarrow> cursor_ok (wrap_y W (wrap_x L st r) r)"
  by (simp add: cursor_ok_def wrap_x_def wrap_y_def)

lemma wraps_fit:
  "Length_cm r \<le> L \<Longrightarrow> Width_cm r \<le> W \<Longrightarrow>
   cur_x (wrap_y W (wrap_x L st r) r) + Length_cm r \<le> L \<and>
   cur_y (wrap_y W (wrap_x L st r) r) + Width_cm r \<le> W"
  by (simp add: wrap_x_def wrap_y_def)

lemma pack_step_inside:
  assumes "cursor_ok st" "list_all (inside L W H) (placed st)"
    and "0 \<le> Length_cm r" "0 \<le> Width_cm r" "0 \<le> Height_cm r"
    and "Length_cm r \<le> L" "Width_cm r \<le> W"
  shows "cursor_ok (pack_step L W H max_weight st r) \<and>
         list_all (inside L W H) (placed (pack_step L W H max_weight st r))"
proof -
  let ?st2 = "wrap_y W (wrap_x L st r) r"
  have c: "cursor_ok ?st2" using assms(1) by (rule wraps_cursor_ok)
  have f: "cur_x ?st2 + Length_cm r \<le> L" "cur_y ?st2 + Width_cm r \<le> W"
    using wraps_fit[OF assms(6,7)] by simp_all
  have p: "list_all (inside L W H) (placed ?st2)" using assms(2) by simp
  show ?thesis
    using c f p assms(1-5)
    by (auto simp add: pack_step_def Let_def cursor_ok_def inside_def mk_placement_def
        le_max_iff_disj)
qed

text \<open>
  What the two wraps and the height test do achieve: when no package is longer or
  wider than the truck (and no dimension is negative), every placement lies in the
  interior. The height needs no such condition, since the height test skips the
  package.
\<close>

lemma pack_loop_inside:
  assumes "list_all (\<lambda>r. 0 \<le> Length_cm r \<and> 0 \<le> Width_cm r \<and> 0 \<le> Height_cm r
                        \<and> Length_cm r \<le> L \<and> Width_cm r \<le> W) packages"
  shows "cursor_ok (pack_loop L W H max_weight packages) \<and>
         list_all (inside L W H) (placed (pack_loop L W H max_weight packages))"
  using assms
proof (induction packages rule: rev_induct)
  case Nil
  then show ?case by (simp add: pack_loop_def init_state_def cursor_ok_def)
next
  case (snoc r packages)
  then show ?case by (simp add: pack_loop_snoc pack_step_inside)
qed

text \<open>
  Claim C1 (every recorded placement lies within the truck interior, also when a
  package's own dimension exceeds the truck's). The code breaks it: a package longer
  than the truck triggers the wrap along X, which resets \<open>x\<close> to 0, and is then
  placed at \<open>x = 0\<close> without a second test, so its box ends beyond the truck's
  length. Here a package of 300 cm in a truck of 200 cm is placed at the origin.
\<close>

theorem pack_oversize_sticks_out:
  "pack
     [\<lparr>Package_id = 7, Weight_lbs = 400, Length_cm = 300, Width_cm = 50, Height_cm = 50,
        Fragile_flag = False, StopSequence = 1\<rparr>]
     [\<lparr>tt_Length_cm = 200, tt_Width_cm = 100, tt_Height_cm = 100, tt_Max_weight_lbs = 1000\<rparr>]
   = Inr \<lparr>Util_weight_pct = 40, Util_volume_pct = 37.5,
       placements = [\<lparr>pl_Package_id = 7, X_cm = 0, Y_cm = 0, Z_cm = 0, pl_Length_cm = 300,
        pl_Width_cm = 50, pl_Height_cm = 50, pl_Fragile_flag = False, pl_StopSequence = 1\<rparr>]\<rparr>
   \<and> \<not> inside 200 100 100 \<lparr>pl_Package_id = 7, X_cm = 0, Y_cm = 0, Z_cm = 0, pl_Length_cm = 300,
        pl_Width_cm = 50, pl_Height_cm = 50, pl_Fragile_flag = False, pl_StopSequence = 1\<rparr>"
  by (simp add: pack_def get_truck_def pack_loop_def pack_step_def wrap_x_def wrap_y_def
      init_state_def mk_placement_def metrics_def used_volume_def round1_def round_half_even_def
      Let_def inside_def)

subsection \<open>The weight budget\<close>

text \<open>
  Claim C2 (the running total of placed weight never exceeds the truck's maximum
  weight). For a truck whose maximum weight is not negative, the total is within the
  maximum before and after the iteration on every package \<open>k\<close> and at the end of the
  loop; an iteration that appends a placement was entered with the total plus the
  package's weight within the maximum, and adds exactly that weight; an iteration that
  appends none leaves the total as it was.
\<close>

theorem pack_weight_never_exceeds:
  assumes "0 \<le> max_weight" and "k < length packages"
  shows "total_weight (pack_loop L W H max_weight (take k packages)) \<le> max_weight
       \<and> total_weight (pack_loop L W H max_weight (take (Suc k) packages)) \<le> max_weight
       \<and> total_weight (pack_loop L W H max_weight packages) \<le> max_weight
       \<and> (placed (pack_loop L W H max_weight (take (Suc k) packages))
            \<noteq> placed (pack_loop L W H max_weight (take k packages)) \<longrightarrow>
          total_weight (pack_loop L W H max_weight (take k packages)) + Weight_lbs (packages ! k)
            \<le> max_weight
          \<and> total_weight (pack_loop L W H max_weight (take (Suc k) packages))
            = total_weight (pack_loop L W H max_weight (take k packages)) + Weight_lbs (packages ! k))
       \<and> (placed (pack_loop L W H max_weight (take (Suc k) packages))
            = placed (pack_loop L W H max_weight (take k packages)) \<longrightarrow>
          total_weight (pack_loop L W H max_weight (take (Suc k) packages))
            = total_weight (pack_loop L W H max_weight (take k packages)))"
proof -
  let ?st = "pack_loop L W H max_weight (take k packages)"
  have step: "pack_loop L W H max_weight (take (Suc k) packages)
              = pack_step L W H max_weight ?st (packages ! k)"
    using assms(2) by (simp add: take_Suc_conv_app_nth pack_loop_snoc)
  show ?thesis
    unfolding step
    using pack_loop_total_le[OF assms(1), of L W H "take k packages"]
      pack_loop_total_le[OF assms(1), of L W H packages]
      pack_step_total_le[of ?st max_weight L W H "packages ! k"]
      pack_step_placed_cases[of L W H max_weight ?st "packages ! k"]
    by auto
qed

text \<open>
  The theorem at three packages of 400 lbs in a truck of 200 x 100 x 100 cm that
  carries 1000 lbs: two are placed, the total is 800.
\<close>

theorem pack_weight_never_exceeds_witness:
  "(0::real) \<le> 1000
   \<and> 2 < length
      [\<lparr>Package_id = 1, Weight_lbs = 400, Length_cm = 100, Width_cm = 100, Height_cm = 100,
        Fragile_flag = False, StopSequence = 1\<rparr>,
       \<lparr>Package_id = 2, Weight_lbs = 400, Length_cm = 100, Width_cm = 100, Height_cm = 100,
        Fragile_flag = False, StopSequence = 1\<rparr>,
       \<lparr>Package_id = 3, Weight_lbs = 400, Length_cm = 100, Width_cm = 100, Height_cm = 100,
        Fragile_flag = False, StopSequence = 1\<rparr>]
   \<and> total_weight (pack_loop 200 100 100 1000
      [\<lparr>Package_id = 1, Weight_lbs = 400, Length_cm = 100, Width_cm = 100, Height_cm = 100,
        Fragile_flag = False, StopSequence = 1\<rparr>,
       \<lparr>Package_id = 2, Weight_lbs = 400, Length_cm = 100, Width_cm = 100, Height_cm = 100,
        Fragile_flag = False, StopSequence = 1\<rparr>,
       \<lparr>Package_id = 3, Weight_lbs = 400, Length_cm = 100, Width_cm = 100, Height_cm = 100,
        Fragile_flag = False, StopSequence = 1\<rparr>]) = 800
   \<and> total_weight (pack_loop 200 100 100 1000
      [\<lparr>Package_id = 1, Weight_lbs = 400, Length_cm = 100, Width_cm = 100, Height_cm = 100,
        Fragile_flag = False, StopSequence = 1\<rparr>,
       \<lparr>Package_id = 2, Weight_lbs = 400, Length_cm = 100, Width_cm = 100, Height_cm = 100,
        Fragile_flag = False, StopSequence = 1\<rparr>,
       \<lparr>Package_id = 3, Weight_lbs = 400, Length_cm = 100, Width_cm = 100, Height_cm = 100,
        Fragile_flag = False, StopSequence = 1\<rparr>]) \<le> 1000"
  using pack_weight_never_exceeds [of 1000 2
      "[\<lparr>Package_id = 1, Weight_lbs = 400, Length_cm = 100, Width_cm = 100, Height_cm = 100,
        Fragile_flag = False, StopSequence = 1\<rparr>,
       \<lparr>Package_id = 2, Weight_lbs = 400, Length_cm = 100, Width_cm = 100, Height_cm = 100,
        Fragile_flag = False, StopSequence = 1\<rparr>,
       \<lparr>Package_id = 3, Weight_lbs = 400, Length_cm = 100, Width_cm = 100, Height_cm = 100,
        Fragile_flag = False, StopSequence = 1\<rparr>]" 200 100 100]
  by (simp add: pack_def get_truck_def pack_loop_def pack_step_def wrap_x_def wrap_y_def
      init_state_def mk_placement_def metrics_def used_volume_def round1_def round_half_even_def
      Let_def)

subsection \<open>Input validation\<close>

text \<open>
  Claim C7 as stated (pack rejects a truck with a dimension that is not positive and
  a package with a negative weight or dimension, and produces no placements) fails:
  with a truck of length 0 and a package of weight -5, \<open>pack\<close> places the package
  at the origin and reports a weight utilisation of -0.5 per cent.
\<close>

theorem pack_accepts_invalid_input:
  "pack
     [\<lparr>Package_id = 1, Weight_lbs = - 5, Length_cm = 10, Width_cm = 10, Height_cm = 10,
        Fragile_flag = False, StopSequence = 1\<rparr>]
     [\<lparr>tt_Length_cm = 0, tt_Width_cm = 100, tt_Height_cm = 100, tt_Max_weight_lbs = 1000\<rparr>]
   = Inr \<lparr>Util_weight_pct = - 0.5, Util_volume_pct = 0,
       placements = [\<lparr>pl_Package_id = 1, X_cm = 0, Y_cm = 0, Z_cm = 0, pl_Length_cm = 10,
        pl_Width_cm = 10, pl_Height_cm = 10, pl_Fragile_flag = False, pl_StopSequence = 1\<rparr>]\<rparr>"
  by (simp add: pack_def get_truck_def pack_loop_def pack_step_def wrap_x_def wrap_y_def
      init_state_def mk_placement_def metrics_def used_volume_def round1_def round_half_even_def
      Let_def)

text \<open>
  Claim C7, amended: \<open>pack\<close> validates neither the truck nor the packages. Whatever
  their values, as soon as the truck query returns a row, \<open>pack\<close> runs the placement
  loop on the first row and returns its plan; it signals an error exactly when the
  truck query returns no row, and the error is then the \<open>IndexError\<close> of
  \<open>.iloc[0]\<close>.
\<close>

theorem pack_runs_on_any_values:
  "pack packages (row # rows) =
     Inr (metrics (tt_Length_cm row) (tt_Width_cm row) (tt_Height_cm row) (tt_Max_weight_lbs row)
           (pack_loop (tt_Length_cm row) (tt_Width_cm row) (tt_Height_cm row)
              (tt_Max_weight_lbs row) packages))
   \<and> pack packages [] = Inl IndexError"
  by (simp add: pack_def get_truck_def)

subsection \<open>Packages skipped for their weight\<close>

text \<open>
  Claim C10 (a package skipped for the weight limit has no effect on the rest of the
  run). If the package at position \<open>i\<close> is skipped by the weight test, the run on
  the list without it ends in the same state (same placements with the same
  coordinates, same total weight, same cursor), and \<open>pack\<close> returns the same plan
  (same placements, same weight and volume utilisation).
\<close>

theorem pack_skip_weight_irrelevant:
  assumes "i < length packages"
    and "get_truck truck_rows = Inr (L, W, H, max_weight)"
    and "max_weight < total_weight (pack_loop L W H max_weight (take i packages))
                        + Weight_lbs (packages ! i)"
  shows "pack_loop L W H max_weight (take i packages @ drop (Suc i) packages)
           = pack_loop L W H max_weight packages
       \<and> pack (take i packages @ drop (Suc i) packages) truck_rows = pack packages truck_rows"
proof -
  have split: "packages = take i packages @ packages ! i # drop (Suc i) packages"
    using assms(1) by (simp add: id_take_nth_drop)
  have "pack_loop L W H max_weight packages
        = foldl (pack_step L W H max_weight)
            (pack_step L W H max_weight (pack_loop L W H max_weight (take i packages)) (packages ! i))
            (drop (Suc i) packages)"
    by (subst split) (simp add: pack_loop_def)
  also have "\<dots> = pack_loop L W H max_weight (take i packages @ drop (Suc i) packages)"
    using assms(3) by (simp add: pack_step_skip_weight pack_loop_def)
  finally have eq: "pack_loop L W H max_weight (take i packages @ drop (Suc i) packages)
           = pack_loop L W H max_weight packages" by simp
  then show ?thesis using assms(2) by (simp add: pack_def)
qed

text \<open>
  The theorem at the same three packages: the third is skipped (800 + 400 exceeds
  1000), and the plan is the plan of the first two.
\<close>

theorem pack_skip_weight_irrelevant_witness:
  "2 < length
      [\<lparr>Package_id = 1, Weight_lbs = 400, Length_cm = 100, Width_cm = 100, Height_cm = 100,
        Fragile_flag = False, StopSequence = 1\<rparr>,
       \<lparr>Package_id = 2, Weight_lbs = 400, Length_cm = 100, Width_cm = 100, Height_cm = 100,
        Fragile_flag = False, StopSequence = 1\<rparr>,
       \<lparr>Package_id = 3, Weight_lbs = 400, Length_cm = 100, Width_cm = 100, Height_cm = 100,
        Fragile_flag = False, StopSequence = 1\<rparr>]
   \<and> get_truck [\<lparr>tt_Length_cm = 200, tt_Width_cm = 100, tt_Height_cm = 100, tt_Max_weight_lbs = 1000\<rparr>] = Inr (200, 100, 100, 1000)
   \<and> 1000 < total_weight (pack_loop 200 100 100 1000 (take 2
      [\<lparr>Package_id = 1, Weight_lbs = 400, Length_cm = 100, Width_cm = 100, Height_cm = 100,
        Fragile_flag = False, StopSequence = 1\<rparr>,
       \<lparr>Package_id = 2, Weight_lbs = 400, Length_cm = 100, Width_cm = 100, Height_cm = 100,
        Fragile_flag = False, StopSequence = 1\<rparr>,
       \<lparr>Package_id = 3, Weight_lbs = 400, Length_cm = 100, Width_cm = 100, Height_cm = 100,
        Fragile_flag = False, StopSequence = 1\<rparr>]))
        + Weight_lbs (
      [\<lparr>Package_id = 1, Weight_lbs = 400, Length_cm = 100, Width_cm = 100, Height_cm = 100,
        Fragile_flag = False, StopSequence = 1\<rparr>,
       \<lparr>Package_id = 2, Weight_lbs = 400, Length_cm = 100, Width_cm = 100, Height_cm = 100,
        Fragile_flag = False, StopSequence = 1\<rparr>,
       \<lparr>Package_id = 3, Weight_lbs = 400, Length_cm = 100, Width_cm = 100, Height_cm = 100,
        Fragile_flag = False, StopSequence = 1\<rparr>] ! 2)
   \<and> pack
      [\<lparr>Package_id = 1, Weight_lbs = 400, Length_cm = 100, Width_cm = 100, Height_cm = 100,
        Fragile_flag = False, StopSequence = 1\<rparr>,
       \<lparr>Package_id = 2, Weight_lbs = 400, Length_cm = 100, Width_cm = 100, Height_cm = 100,
        Fragile_flag = False, StopSequence = 1\<rparr>]
      [\<lparr>tt_Length_cm = 200, tt_Width_cm = 100, tt_Height_cm = 100, tt_Max_weight_lbs = 1000\<rparr>]
     = pack
      [\<lparr>Package_id = 1, Weight_lbs = 400, Length_cm = 100, Width_cm = 100, Height_cm = 100,
        Fragile_flag = False, StopSequence = 1\<rparr>,
       \<lparr>Package_id = 2, Weight_lbs = 400, Length_cm = 100, Width_cm = 100, Height_cm = 100,
        Fragile_flag = False, StopSequence = 1\<rparr>,
       \<lparr>Package_id = 3, Weight_lbs = 400, Length_cm = 100, Width_cm = 100, Height_cm = 100,
        Fragile_flag = False, StopSequence = 1\<rparr>]
      [\<lparr>tt_Length_cm = 200, tt_Width_cm = 100, tt_Height_cm = 100, tt_Max_weight_lbs = 1000\<rparr>]"
  using pack_skip_weight_irrelevant [of 2
      "[\<lparr>Package_id = 1, Weight_lbs = 400, Length_cm = 100, Width_cm = 100, Height_cm = 100,
        Fragile_flag = False, StopSequence = 1\<rparr>,
       \<lparr>Package_id = 2, Weight_lbs = 400, Length_cm = 100, Width_cm = 100, Height_cm = 100,
        Fragile_flag = False, StopSequence = 1\<rparr>,
       \<lparr>Package_id = 3, Weight_lbs = 400, Length_cm = 100, Width_cm = 100, Height_cm = 100,
        Fragile_flag = False, StopSequence = 1\<rparr>]"
      "[\<lparr>tt_Length_cm = 200, tt_Width_cm = 100, tt_Height_cm = 100, tt_Max_weight_lbs = 1000\<rparr>]" 200 100 100 1000]
  by (simp add: pack_def get_truck_def pack_loop_def pack_step_def wrap_x_def wrap_y_def
      init_state_def mk_placement_def metrics_def used_volume_def round1_def round_half_even_def
      Let_def)

end
